theory Spec2Isabelle
  imports Main
begin

section \<open>Strings and paths\<close>

text \<open>
  Python strings are modelled as \<^typ>\<open>string\<close>. \<open>starts p s\<close> is
  \<^verbatim>\<open>s.startswith(p)\<close> and \<open>py_in n s\<close> is \<^verbatim>\<open>n in s\<close>.
\<close>

fun starts :: "string \<Rightarrow> string \<Rightarrow> bool" where
  "starts [] s = True"
| "starts (c # p) [] = False"
| "starts (c # p) (d # s) = (c = d \<and> starts p s)"

fun py_in :: "string \<Rightarrow> string \<Rightarrow> bool" where
  "py_in n [] = starts n []"
| "py_in n (c # s) = (starts n (c # s) \<or> py_in n s)"

text \<open>
  A \<^verbatim>\<open>pathlib.Path\<close> is modelled by its POSIX string. \<open>path_name\<close> is the final
  component, \<open>suffix\<close> and \<open>stem\<close> follow pathlib: the name is cut at its last dot
  when that dot is neither the first nor the last character of the name.
\<close>

type_synonym path = string

definition path_name :: "path \<Rightarrow> string" where
  "path_name p = rev (takeWhile (\<lambda>c. c \<noteq> CHR ''/'') (rev p))"

definition rfind_dot :: "string \<Rightarrow> nat option" where
  "rfind_dot n =
     (if CHR ''.'' \<in> set n
      then Some (length n - 1 - length (takeWhile (\<lambda>c. c \<noteq> CHR ''.'') (rev n)))
      else None)"

definition suffix :: "path \<Rightarrow> string" where
  "suffix p =
     (let n = path_name p in
      case rfind_dot n of
        None \<Rightarrow> []
      | Some i \<Rightarrow> if 0 < i \<and> i < length n - 1 then drop i n else [])"

definition stem :: "path \<Rightarrow> string" where
  "stem p =
     (let n = path_name p in
      case rfind_dot n of
        None \<Rightarrow> n
      | Some i \<Rightarrow> if 0 < i \<and> i < length n - 1 then take i n else n)"

definition parent :: "path \<Rightarrow> path" where
  "parent p = take (length p - length (path_name p) - 1) p"

text \<open>
  \<^verbatim>\<open>Path.absolute()\<close> prepends the working directory to a relative path and leaves
  an absolute one as it is.
\<close>

definition absolute :: "path \<Rightarrow> path \<Rightarrow> path" where
  "absolute cwd p =
     (if starts ''/'' p then p
      else if p = ''.'' then cwd
      else if cwd = ''/'' then ''/'' @ p
      else cwd @ ''/'' @ p)"

text \<open>
  \<^verbatim>\<open>Path(s)\<close> on POSIX: the string is cut at the separators, empty components and
  \<^verbatim>\<open>.\<close> components are dropped, the root is kept (exactly two leading separators
  stay two, any other number becomes one), and the empty path is written \<^verbatim>\<open>.\<close>.
\<close>

fun split_sep :: "string \<Rightarrow> string list" where
  "split_sep [] = [[]]"
| "split_sep (c # cs) =
     (if c = CHR ''/'' then [] # split_sep cs
      else case split_sep cs of [] \<Rightarrow> [[c]] | x # xs \<Rightarrow> (c # x) # xs)"

fun join_sep :: "string list \<Rightarrow> string" where
  "join_sep [] = []"
| "join_sep [x] = x"
| "join_sep (x # y # ys) = x @ ''/'' @ join_sep (y # ys)"

definition Path :: "string \<Rightarrow> path" where
  "Path s =
     (let root = (if starts ''//'' s \<and> \<not> starts ''///'' s then ''//''
                  else if starts ''/'' s then ''/'' else []);
          parts = filter (\<lambda>x. x \<noteq> [] \<and> x \<noteq> ''.'') (split_sep s)
      in if root = [] \<and> parts = [] then ''.'' else root @ join_sep parts)"

section \<open>Configuration\<close>

record Config =
  NB_WORKERS :: int
  DESTINATION_FOLDER :: path
  DESTINATION_FILE_TYPE :: string
  SOURCE_FOLDER :: path
  SOURCE_FILE_TYPE :: string
  IS_RECURSIVE :: bool
  IMAGE_QUALITY :: int
  OPTIMIZE :: bool
  PROGRESSIVE :: bool

section \<open>The environment: filesystem and image codec\<close>

text \<open>
  Python exceptions carry a class and the text \<^verbatim>\<open>str(ex)\<close>. Three classes are
  told apart by the handlers of \<^verbatim>\<open>convert\<close>: \<^verbatim>\<open>OSError\<close> (and its subclasses),
  any other \<^verbatim>\<open>Exception\<close>, and a \<^verbatim>\<open>BaseException\<close> that is no
  \<^verbatim>\<open>Exception\<close>.
\<close>

datatype exc_class = OSError | OtherException | BaseExceptionOnly

datatype exc = Exc (cls: exc_class) (str: string)

text \<open>
  The filesystem and Pillow are outside the program. They are parameters: \<open>'w\<close> is
  the state of the world (the filesystem), \<open>'i\<close> an image held in memory.
  \<open>image_save\<close> returns the exception it raises, if any, and the world it leaves.
\<close>

record ('w, 'i) sys =
  cwd :: path
  cpu_count :: "nat option"
  is_dir :: "'w \<Rightarrow> path \<Rightarrow> bool"
  exists :: "'w \<Rightarrow> path \<Rightarrow> bool"
  glob :: "'w \<Rightarrow> string \<Rightarrow> bool \<Rightarrow> path list"
  registered_extensions :: "string \<rightharpoonup> string"
  image_open :: "'w \<Rightarrow> path \<Rightarrow> exc + 'i"
  image_convert :: "'i \<Rightarrow> string \<Rightarrow> exc + 'i"
  image_save :: "'w \<Rightarrow> 'i \<Rightarrow> path \<Rightarrow> string option \<Rightarrow> int \<Rightarrow> bool \<Rightarrow> bool \<Rightarrow> exc option \<times> 'w"

text \<open>
  What a task does that can be observed: a line written with \<^verbatim>\<open>tqdm.write\<close>, a
  call of \<^verbatim>\<open>image.save\<close> with its arguments (whether it succeeds or not), and a
  message on standard error when the interpreter exits.
\<close>

datatype 'i event =
  Write string
| Save 'i path "string option" int bool bool
| Stderr string

record ('w, 'i) task_result =
  raised :: "exc option"
  trace :: "'i event list"
  world :: 'w

section \<open>The conversion task\<close>

text \<open>
  Line 83. The folder comes out of \<^verbatim>\<open>Path\<close> already, the stem has no separator, and
  the string is kept as it is formatted.
\<close>

definition dest_path_of :: "('w, 'i) sys \<Rightarrow> path \<Rightarrow> Config \<Rightarrow> path" where
  "dest_path_of sys source_file_path config =
     absolute (cwd sys) (DESTINATION_FOLDER config) @ ''/'' @ stem source_file_path
       @ DESTINATION_FILE_TYPE config"

definition exists_warning :: "path \<Rightarrow> string" where
  "exists_warning dest_path = ''Warning: file '' @ dest_path @ '' already exists''"

definition transparency_warning :: "path \<Rightarrow> exc \<Rightarrow> string" where
  "transparency_warning source_file_path ex =
     ''Warning: file '' @ source_file_path @ '' has a transparency layer, message: '' @ str ex"

definition error_line :: "path \<Rightarrow> exc \<Rightarrow> string" where
  "error_line source_file_path ex =
     ''Error: file: '' @ source_file_path @ '', message: '' @ str ex"

text \<open>
  \<^verbatim>\<open>image.save(dest_path, extension_name, quality=..., optimize=..., progressive=...)\<close>,
  recorded in the trace.
\<close>

definition save_call ::
  "('w, 'i) sys \<Rightarrow> 'w \<Rightarrow> 'i \<Rightarrow> path \<Rightarrow> string option \<Rightarrow> Config \<Rightarrow> exc option \<times> 'i event \<times> 'w" where
  "save_call sys w img dest_path extension_name config =
     (let (r, w') = image_save sys w img dest_path extension_name
                      (IMAGE_QUALITY config) (OPTIMIZE config) (PROGRESSIVE config)
      in (r, Save img dest_path extension_name
                (IMAGE_QUALITY config) (OPTIMIZE config) (PROGRESSIVE config), w'))"

text \<open>
  The body of \<^verbatim>\<open>except OSError as ex\<close> (lines 95 to 101): the transparency branch,
  then the second \<^verbatim>\<open>image.save\<close>, which stands after the \<^verbatim>\<open>if\<close> and not inside it.
  An exception raised here is not handled by the \<^verbatim>\<open>except Exception\<close> clause of the
  same \<^verbatim>\<open>try\<close>: it leaves the function.
\<close>

definition handle_oserror ::
  "('w, 'i) sys \<Rightarrow> 'w \<Rightarrow> 'i \<Rightarrow> path \<Rightarrow> path \<Rightarrow> string option \<Rightarrow> Config \<Rightarrow> exc
     \<Rightarrow> 'i event list \<Rightarrow> ('w, 'i) task_result" where
  "handle_oserror sys w img source_file_path dest_path extension_name config ex pre =
     (let warned = (if py_in ''RGBA'' (str ex)
                    then [Write (transparency_warning source_file_path ex)] else []);
          converted = (if py_in ''RGBA'' (str ex)
                       then image_convert sys img ''RGB'' else Inr img)
      in case converted of
           Inl ex2 \<Rightarrow> \<lparr>raised = Some ex2, trace = pre @ warned, world = w\<rparr>
         | Inr img2 \<Rightarrow>
             (case save_call sys w img2 dest_path extension_name config of
                (r, ev, w') \<Rightarrow> \<lparr>raised = r, trace = pre @ warned @ [ev], world = w'\<rparr>))"

text \<open>
  \<^verbatim>\<open>convert\<close> (lines 82 to 103). \<^verbatim>\<open>Image.open\<close> stands before the \<^verbatim>\<open>try\<close>,
  so what it raises leaves the function. The result says whether the call returned
  (\<open>raised = None\<close>) or raised.
\<close>

definition convert :: "('w, 'i) sys \<Rightarrow> 'w \<Rightarrow> path \<Rightarrow> Config \<Rightarrow> ('w, 'i) task_result" where
  "convert sys w source_file_path config =
     (let dest_path = dest_path_of sys source_file_path config in
      case image_open sys w source_file_path of
        Inl ex \<Rightarrow> \<lparr>raised = Some ex, trace = [], world = w\<rparr>
      | Inr img \<Rightarrow>
          (let extension_name = registered_extensions sys (suffix dest_path);
               warned = (if exists sys w dest_path
                         then [Write (exists_warning dest_path)] else [])
           in case save_call sys w img dest_path extension_name config of
                (None, ev, w') \<Rightarrow> \<lparr>raised = None, trace = warned @ [ev], world = w'\<rparr>
              | (Some ex, ev, w') \<Rightarrow>
                  (case cls ex of
                     OSError \<Rightarrow>
                       handle_oserror sys w' img source_file_path dest_path extension_name
                         config ex (warned @ [ev])
                   | OtherException \<Rightarrow>
                       \<lparr>raised = None,
                        trace = warned @ [ev, Write (error_line source_file_path ex)],
                        world = w'\<rparr>
                   | BaseExceptionOnly \<Rightarrow>
                       \<lparr>raised = Some ex, trace = warned @ [ev], world = w'\<rparr>)))"

text \<open>
  Short names for what line 83, line 86 and the two calls of \<^verbatim>\<open>image.save\<close> compute
  from the source file and the configuration.
\<close>

abbreviation dest_format :: "('w, 'i) sys \<Rightarrow> path \<Rightarrow> Config \<Rightarrow> string option" where
  "dest_format sys src config \<equiv> registered_extensions sys (suffix (dest_path_of sys src config))"

abbreviation save_to_dest ::
  "('w, 'i) sys \<Rightarrow> 'w \<Rightarrow> 'i \<Rightarrow> path \<Rightarrow> Config \<Rightarrow> exc option \<times> 'w" where
  "save_to_dest sys w img src config \<equiv>
     image_save sys w img (dest_path_of sys src config) (dest_format sys src config)
       (IMAGE_QUALITY config) (OPTIMIZE config) (PROGRESSIVE config)"

abbreviation saved :: "('w, 'i) sys \<Rightarrow> 'i \<Rightarrow> path \<Rightarrow> Config \<Rightarrow> 'i event" where
  "saved sys img src config \<equiv>
     Save img (dest_path_of sys src config) (dest_format sys src config)
       (IMAGE_QUALITY config) (OPTIMIZE config) (PROGRESSIVE config)"

abbreviation exists_warned :: "('w, 'i) sys \<Rightarrow> 'w \<Rightarrow> path \<Rightarrow> Config \<Rightarrow> 'i event list" where
  "exists_warned sys w src config \<equiv>
     (if exists sys w (dest_path_of sys src config)
      then [Write (exists_warning (dest_path_of sys src config))] else [])"

section \<open>The command line\<close>

text \<open>
  \<^verbatim>\<open>parser.parse_args()\<close> either returns the namespace or leaves through
  \<^verbatim>\<open>SystemExit\<close>: with status 2 after \<^verbatim>\<open>parser.error\<close>, with status 0 after the
  help text. \<^verbatim>\<open>check_config\<close> raises \<^verbatim>\<open>SystemExit\<close> with a message, which the
  interpreter prints on standard error before it exits with status 1.
\<close>

datatype system_exit = SystemExit_int int | SystemExit_str string

fun exit_code :: "system_exit \<Rightarrow> int" where
  "exit_code (SystemExit_int n) = n"
| "exit_code (SystemExit_str m) = 1"

record options =
  nb_workers :: int
  optimize :: bool
  progressive :: bool
  quality :: int
  recursive :: bool

record Namespace = options +
  source :: path
  dest :: path
  file_type :: string
  dest_file_type :: string

definition option_strings :: "string list" where
  "option_strings =
     [''-h'', ''--help'', ''--nb-workers'', ''--optimize'', ''--progressive'', ''--quality'',
      ''--recursive'']"

definition is_digit :: "char \<Rightarrow> bool" where
  "is_digit c = (c \<in> set ''0123456789'')"

text \<open>
  \<^verbatim>\<open>int(s)\<close> for \<^verbatim>\<open>type=int\<close>: blanks around the text are dropped, then comes an
  optional sign, then decimal digits, where one underscore may stand between two
  digits. \<open>nat_of_digits cs prev acc\<close> reads the digits; \<open>prev\<close> says that the
  character before was a digit. (Blanks and digits outside ASCII are left out.)
\<close>

definition is_space :: "char \<Rightarrow> bool" where
  "is_space c =
     (c \<in> set [CHR 0x09, CHR 0x0A, CHR 0x0B, CHR 0x0C, CHR 0x0D, CHR 0x1C, CHR 0x1D,
                CHR 0x1E, CHR 0x1F, CHR 0x20])"

definition strip :: "string \<Rightarrow> string" where
  "strip s = rev (dropWhile is_space (rev (dropWhile is_space s)))"

fun nat_of_digits :: "string \<Rightarrow> bool \<Rightarrow> nat \<Rightarrow> nat option" where
  "nat_of_digits [] prev acc = (if prev then Some acc else None)"
| "nat_of_digits (c # cs) prev acc =
     (if is_digit c then nat_of_digits cs True (10 * acc + (of_char c - 48))
      else if c = CHR ''_'' \<and> prev then nat_of_digits cs False acc
      else None)"

definition py_int :: "string \<Rightarrow> int option" where
  "py_int s =
     (case strip s of
        [] \<Rightarrow> None
      | c # cs \<Rightarrow>
          if c = CHR ''-'' then map_option (\<lambda>n. - int n) (nat_of_digits cs False 0)
          else if c = CHR ''+'' then map_option int (nat_of_digits cs False 0)
          else map_option int (nat_of_digits (c # cs) False 0))"

text \<open>
  argparse takes a token for a negative number, hence for a positional argument, when
  it matches \<^verbatim>\<open>^-\d+$|^-\d*\.\d+$\<close>.
\<close>

definition is_negative_number :: "string \<Rightarrow> bool" where
  "is_negative_number t =
     (case t of
        [] \<Rightarrow> False
      | c # r \<Rightarrow>
          c = CHR ''-'' \<and>
          ((r \<noteq> [] \<and> list_all is_digit r) \<or>
           (case dropWhile is_digit r of
              [] \<Rightarrow> False
            | d # f \<Rightarrow> d = CHR ''.'' \<and> f \<noteq> [] \<and> list_all is_digit f)))"

definition split_eq :: "string \<Rightarrow> string \<times> string option" where
  "split_eq t =
     (let a = takeWhile (\<lambda>c. c \<noteq> CHR ''='') t
      in if length a < length t then (a, Some (drop (length a + 1) t)) else (t, None))"

text \<open>
  How argparse reads one token: a positional argument, an option string it knows
  (exactly, with \<^verbatim>\<open>=value\<close>, or by an unambiguous prefix of a long option, with the
  explicit argument if any), an ambiguous prefix, or an unknown option.
\<close>

datatype opt_kind = Positional | Unknown | Ambiguous | Opt string "string option"

definition parse_optional :: "string \<Rightarrow> opt_kind" where
  "parse_optional t =
     (let other = (if is_negative_number t then Positional
                   else if CHR '' '' \<in> set t then Positional else Unknown)
      in if starts ''-'' t then
           (if t \<in> set option_strings then Opt t None
            else if length t = 1 then Positional
            else case split_eq t of
              (a, e) \<Rightarrow>
                if e \<noteq> None \<and> a \<in> set option_strings then Opt a e
                else if starts ''--'' t then
                  (case filter (starts a) option_strings of
                     [] \<Rightarrow> other
                   | [x] \<Rightarrow> Opt x e
                   | _ \<Rightarrow> Ambiguous)
                else if starts ''-h'' t then Opt ''-h'' (Some (drop 2 t))
                else other)
         else Positional)"

text \<open>
  The options as \<^verbatim>\<open>configure_argument_parser\<close> declares them (lines 64 to 73):
  \<^verbatim>\<open>--nb-workers\<close> stores the \<^verbatim>\<open>int\<close> of its one argument; \<^verbatim>\<open>--optimize\<close>,
  \<^verbatim>\<open>--progressive\<close> and \<^verbatim>\<open>--recursive\<close> are \<^verbatim>\<open>store_true\<close>; \<^verbatim>\<open>--quality\<close> is
  \<^verbatim>\<open>store_const\<close> with \<^verbatim>\<open>const=80\<close>; none of the last four takes an argument.
\<close>

definition store_nb_workers ::
  "string \<Rightarrow> string list \<times> string list \<times> options
     \<Rightarrow> system_exit + string list \<times> string list \<times> options" where
  "store_nb_workers v st =
     (case st of
        (pos, extras, opts) \<Rightarrow>
          (case py_int v of
             None \<Rightarrow> Inl (SystemExit_int 2)
           | Some n \<Rightarrow> Inr (pos, extras, opts\<lparr>nb_workers := n\<rparr>)))"

definition take_flag ::
  "string \<Rightarrow> options \<Rightarrow> system_exit + options" where
  "take_flag name opts =
     (if name = ''--optimize'' then Inr (opts\<lparr>optimize := True\<rparr>)
      else if name = ''--progressive'' then Inr (opts\<lparr>progressive := True\<rparr>)
      else if name = ''--quality'' then Inr (opts\<lparr>quality := 80\<rparr>)
      else if name = ''--recursive'' then Inr (opts\<lparr>recursive := True\<rparr>)
      else Inl (SystemExit_int 0))"

fun parse_loop ::
  "string list \<Rightarrow> string list \<times> string list \<times> options
     \<Rightarrow> system_exit + string list \<times> string list \<times> options" where
  "parse_loop [] st = Inr st"
| "parse_loop (t # ts) (pos, extras, opts) =
     (if t = ''--'' then Inr (pos @ ts, extras, opts)
      else case parse_optional t of
        Positional \<Rightarrow> parse_loop ts (pos @ [t], extras, opts)
      | Unknown \<Rightarrow> parse_loop ts (pos, extras @ [t], opts)
      | Ambiguous \<Rightarrow> Inl (SystemExit_int 2)
      | Opt name explicit \<Rightarrow>
          if name = ''--nb-workers'' then
            (case explicit of
               Some v \<Rightarrow>
                 (case store_nb_workers v (pos, extras, opts) of
                    Inl e \<Rightarrow> Inl e
                  | Inr st \<Rightarrow> parse_loop ts st)
             | None \<Rightarrow>
                 (case ts of
                    [] \<Rightarrow> Inl (SystemExit_int 2)
                  | v # ts' \<Rightarrow>
                      if v \<noteq> ''--'' \<and> parse_optional v = Positional then
                        (case store_nb_workers v (pos, extras, opts) of
                           Inl e \<Rightarrow> Inl e
                         | Inr st \<Rightarrow> parse_loop ts' st)
                      else Inl (SystemExit_int 2)))
          else
            (case explicit of
               Some e \<Rightarrow>
                 if name = ''-h'' \<and> e \<noteq> [] \<and> list_all (\<lambda>c. c = CHR ''h'') e
                 then Inl (SystemExit_int 0) else Inl (SystemExit_int 2)
             | None \<Rightarrow>
                 (case take_flag name opts of
                    Inl e \<Rightarrow> Inl e
                  | Inr opts' \<Rightarrow> parse_loop ts (pos, extras, opts'))))"

text \<open>
  The defaults of lines 64 to 73, then the four positional arguments of lines 60 to
  63, all required; a token left over is an error. argparse reads every token up to
  \<^verbatim>\<open>--\<close> before it takes any action, so an ambiguous prefix anywhere is reported
  first. \<^verbatim>\<open>source\<close> and \<^verbatim>\<open>dest\<close> have \<^verbatim>\<open>type=Path\<close>.
\<close>

definition default_options :: "('w, 'i) sys \<Rightarrow> options" where
  "default_options sys =
     \<lparr>nb_workers =
        min 32 (int (case cpu_count sys of None \<Rightarrow> 1 | Some n \<Rightarrow> if n = 0 then 1 else n) + 4),
      optimize = True, progressive = True, quality = 80, recursive = True\<rparr>"

definition parse_args :: "('w, 'i) sys \<Rightarrow> string list \<Rightarrow> system_exit + Namespace" where
  "parse_args sys argv =
     (if list_ex (\<lambda>t. parse_optional t = Ambiguous) (takeWhile (\<lambda>t. t \<noteq> ''--'') argv)
      then Inl (SystemExit_int 2)
      else case parse_loop argv ([], [], default_options sys) of
        Inl e \<Rightarrow> Inl e
      | Inr (pos, extras, opts) \<Rightarrow>
          (case pos of
             [s, d, f, g] \<Rightarrow>
               if extras = [] then
                 Inr \<lparr>nb_workers = nb_workers opts, optimize = optimize opts,
                      progressive = progressive opts, quality = quality opts,
                      recursive = recursive opts,
                      source = Path s, dest = Path d, file_type = f, dest_file_type = g\<rparr>
               else Inl (SystemExit_int 2)
           | _ \<Rightarrow> Inl (SystemExit_int 2)))"

text \<open>\<^verbatim>\<open>Config.__init__\<close> (lines 15 to 24).\<close>

definition Config_init :: "Namespace \<Rightarrow> Config" where
  "Config_init args =
     \<lparr>NB_WORKERS = nb_workers args,
      DESTINATION_FOLDER = dest args,
      DESTINATION_FILE_TYPE = dest_file_type args,
      SOURCE_FOLDER = source args,
      SOURCE_FILE_TYPE = file_type args,
      IS_RECURSIVE = recursive args,
      IMAGE_QUALITY = quality args,
      OPTIMIZE = optimize args,
      PROGRESSIVE = progressive args\<rparr>"

definition configure_argument_parser ::
  "('w, 'i) sys \<Rightarrow> string list \<Rightarrow> system_exit + Config" where
  "configure_argument_parser sys argv =
     (case parse_args sys argv of Inl e \<Rightarrow> Inl e | Inr args \<Rightarrow> Inr (Config_init args))"

section \<open>Validation of the configuration\<close>

text \<open>
  Lines 38 to 41 give each extension a leading dot when it has none. \<^verbatim>\<open>check_config\<close>
  changes the configuration in place; the model returns the changed configuration, or
  the \<^verbatim>\<open>SystemExit\<close> it raises.
\<close>

definition with_dot :: "string \<Rightarrow> string" where
  "with_dot e = (if starts ''.'' e then e else ''.'' @ e)"

definition check_config :: "('w, 'i) sys \<Rightarrow> 'w \<Rightarrow> Config \<Rightarrow> system_exit + Config" where
  "check_config sys w config0 =
     (let config1 = config0\<lparr>SOURCE_FILE_TYPE := with_dot (SOURCE_FILE_TYPE config0)\<rparr>;
          config = config1\<lparr>DESTINATION_FILE_TYPE := with_dot (DESTINATION_FILE_TYPE config1)\<rparr>
      in if \<not> is_dir sys w (SOURCE_FOLDER config) then
           Inl (SystemExit_str ''Error: Source path does not lead to a directory'')
         else if \<not> is_dir sys w (DESTINATION_FOLDER config) then
           Inl (SystemExit_str ''Error: Destination path does not lead to a directory'')
         else if \<not> exists sys w (SOURCE_FOLDER config) then
           Inl (SystemExit_str ''Error: Source folder does not exist'')
         else if \<not> exists sys w (DESTINATION_FOLDER config) then
           Inl (SystemExit_str ''Error: Destination folder does not exist'')
         else if glob sys w (SOURCE_FOLDER config @ ''/**/*'' @ SOURCE_FILE_TYPE config)
                   (IS_RECURSIVE config) = [] then
           Inl (SystemExit_str (''Error: Source folder does not contain any file of type ''
                  @ SOURCE_FILE_TYPE config))
         else if registered_extensions sys (DESTINATION_FILE_TYPE config) = None then
           Inl (SystemExit_str ''Error: Desired conversion format is not supported'')
         else if registered_extensions sys (SOURCE_FILE_TYPE config) = None then
           Inl (SystemExit_str ''Error: Source image format is not supported'')
         else Inr config)"

section \<open>The main program\<close>

text \<open>
  \<^verbatim>\<open>executor.submit(convert, file, config)\<close> runs the task in a worker, which keeps
  whatever the task raises in the task's future; lines 111 to 114 never ask a future
  for its result. The pool is modelled by the schedule in which every task runs to its
  end before the next one starts, in the order of submission. \<open>run_tasks\<close> returns
  what each future holds, what the tasks wrote, and the world they leave.
\<close>

fun run_tasks ::
  "('w, 'i) sys \<Rightarrow> Config \<Rightarrow> 'w \<Rightarrow> path list \<Rightarrow> exc option list \<times> 'i event list \<times> 'w" where
  "run_tasks sys config w [] = ([], [], w)"
| "run_tasks sys config w (file # files) =
     (let r = convert sys w file config in
      case run_tasks sys config (world r) files of
        (fs, evs, w') \<Rightarrow> (raised r # fs, trace r @ evs, w'))"

record ('w, 'i) run =
  exit_status :: int
  printed :: "'i event list"
  all_files :: "path list"
  futures :: "exc option list"
  final :: 'w

fun exit_output :: "system_exit \<Rightarrow> 'i event list" where
  "exit_output (SystemExit_int n) = []"
| "exit_output (SystemExit_str m) = [Stderr m]"

definition exit_run :: "system_exit \<Rightarrow> 'w \<Rightarrow> ('w, 'i) run" where
  "exit_run e w =
     \<lparr>exit_status = exit_code e, printed = exit_output e, all_files = [], futures = [],
      final = w\<rparr>"

text \<open>
  Lines 106 to 114. \<^verbatim>\<open>ThreadPoolExecutor\<close> raises \<^verbatim>\<open>ValueError\<close> when
  \<^verbatim>\<open>max_workers\<close> is not positive; nothing catches it, so the interpreter exits with
  status 1. The progress bar is left out.
\<close>

definition main :: "('w, 'i) sys \<Rightarrow> 'w \<Rightarrow> string list \<Rightarrow> ('w, 'i) run" where
  "main sys w argv =
     (case configure_argument_parser sys argv of
        Inl e \<Rightarrow> exit_run e w
      | Inr config0 \<Rightarrow>
          (case check_config sys w config0 of
             Inl e \<Rightarrow> exit_run e w
           | Inr config \<Rightarrow>
               (let files = glob sys w
                      (absolute (cwd sys) (SOURCE_FOLDER config) @ ''/**/*''
                         @ SOURCE_FILE_TYPE config)
                      (IS_RECURSIVE config)
                in if NB_WORKERS config \<le> 0 then
                     \<lparr>exit_status = 1,
                      printed = [Stderr ''ValueError: max_workers must be greater than 0''],
                      all_files = files, futures = [], final = w\<rparr>
                   else
                     (case run_tasks sys config w files of
                        (fs, evs, w') \<Rightarrow>
                          \<lparr>exit_status = 0, printed = evs @ [Write ''Done.''],
                           all_files = files, futures = fs, final = w'\<rparr>))))"



section \<open>What the trace of a task shows\<close>

text \<open>
  The number of calls of \<^verbatim>\<open>image.save\<close> in a trace, and whether a trace holds the
  error report of line 103 for a source file.
\<close>

fun is_save :: "'i event \<Rightarrow> bool" where
  "is_save (Save img p f q b c) = True"
| "is_save (Write l) = False"
| "is_save (Stderr l) = False"

definition save_attempts :: "'i event list \<Rightarrow> nat" where
  "save_attempts evs = length (filter is_save evs)"

fun is_error_report :: "path \<Rightarrow> 'i event \<Rightarrow> bool" where
  "is_error_report src (Write l) = starts (''Error: file: '' @ src @ '', message: '') l"
| "is_error_report src (Save img p f q b c) = False"
| "is_error_report src (Stderr l) = False"

definition reports_failure :: "path \<Rightarrow> ('w, 'i) task_result \<Rightarrow> bool" where
  "reports_failure src r = (raised r = None \<and> list_ex (is_error_report src) (trace r))"

fun save_quality :: "'i event \<Rightarrow> int option" where
  "save_quality (Save img p f q b c) = Some q"
| "save_quality (Write l) = None"
| "save_quality (Stderr l) = None"

fun save_path :: "'i event \<Rightarrow> path option" where
  "save_path (Save img p f q b c) = Some p"
| "save_path (Write l) = None"
| "save_path (Stderr l) = None"

section \<open>A small world to run the program in\<close>

text \<open>
  The world is the list of the files that exist; an image is its pixel mode. The
  directories \<^verbatim>\<open>/in\<close>, \<^verbatim>\<open>/out\<close>, \<^verbatim>\<open>/ro\<close> (not writable) and \<^verbatim>\<open>/full\<close> (no space
  left) exist. The JPEG encoder refuses the mode RGBA with an \<^verbatim>\<open>OSError\<close>, the PDF
  encoder with a \<^verbatim>\<open>ValueError\<close>.
\<close>

definition demo_dirs :: "path list" where
  "demo_dirs = [''/in'', ''/in/sub'', ''/out'', ''/ro'', ''/full'']"

definition demo_open :: "path list \<Rightarrow> path \<Rightarrow> exc + string" where
  "demo_open w p =
     (if p \<in> set w then
        (if p = ''/in/c.png'' then Inr ''RGBA''
         else if p = ''/in/bad.png'' then Inl (Exc OSError ''cannot identify image file /in/bad.png'')
         else Inr ''RGB'')
      else Inl (Exc OSError (''[Errno 2] No such file or directory: '' @ p)))"

definition demo_save ::
  "path list \<Rightarrow> string \<Rightarrow> path \<Rightarrow> string option \<Rightarrow> int \<Rightarrow> bool \<Rightarrow> bool \<Rightarrow> exc option \<times> path list" where
  "demo_save w img p fmt q opt prog =
     (if fmt = None then (Some (Exc OtherException (''unknown file extension: '' @ suffix p)), w)
      else if starts ''/ro/'' p then
        (Some (Exc OSError (''[Errno 13] Permission denied: '' @ p)), w)
      else if img = ''RGBA'' \<and> fmt = Some ''JPEG'' then
        (Some (Exc OSError ''cannot write mode RGBA as JPEG''), w)
      else if img = ''RGBA'' \<and> fmt = Some ''PDF'' then
        (Some (Exc OtherException ''cannot save mode RGBA''), w)
      else if starts ''/full/'' p then
        (Some (Exc OSError ''[Errno 28] No space left on device''), w)
      else (None, p # w))"

definition demo_sys :: "(path list, string) sys" where
  "demo_sys =
     \<lparr>cwd = ''/home/user'',
      cpu_count = Some 4,
      is_dir = (\<lambda>w p. p \<in> set demo_dirs),
      exists = (\<lambda>w p. p \<in> set demo_dirs \<or> p \<in> set w),
      glob = (\<lambda>w pat rec.
                if pat = ''/in/**/*.png''
                then filter (\<lambda>f. starts ''/in/'' f \<and> suffix f = ''.png'') w else []),
      registered_extensions = [''.png'' \<mapsto> ''PNG'', ''.jpg'' \<mapsto> ''JPEG'', ''.gif'' \<mapsto> ''GIF'',
         ''.pdf'' \<mapsto> ''PDF''],
      image_open = demo_open,
      image_convert = (\<lambda>img m. Inr m),
      image_save = demo_save\<rparr>"

definition demo_world :: "path list" where
  "demo_world = [''/in/a.png'', ''/in/bad.png'', ''/in/c.png'', ''/in/sub/a.png'']"

definition demo_config :: "path \<Rightarrow> Config" where
  "demo_config d =
     \<lparr>NB_WORKERS = 8, DESTINATION_FOLDER = d, DESTINATION_FILE_TYPE = ''.jpg'',
      SOURCE_FOLDER = ''/in'', SOURCE_FILE_TYPE = ''.png'', IS_RECURSIVE = True,
      IMAGE_QUALITY = 80, OPTIMIZE = True, PROGRESSIVE = True\<rparr>"

definition demo_argv :: "string list" where
  "demo_argv = [''/in'', ''/out'', ''png'', ''jpg'']"

section \<open>Facts shared by the proofs\<close>

lemmas demo_defs =
  demo_sys_def demo_open_def demo_save_def demo_world_def demo_config_def demo_dirs_def
  demo_argv_def

lemmas path_defs =
  dest_path_of_def absolute_def stem_def suffix_def path_name_def rfind_dot_def parent_def

lemmas convert_defs = convert_def handle_oserror_def save_call_def Let_def

lemmas line_defs = exists_warning_def transparency_warning_def error_line_def

lemmas parse_defs =
  configure_argument_parser_def Config_init_def parse_args_def default_options_def
  parse_optional_def option_strings_def split_eq_def is_negative_number_def
  store_nb_workers_def take_flag_def py_int_def is_digit_def is_space_def strip_def Path_def

subsection \<open>Paths\<close>

lemma path_name_no_slash: "CHR ''/'' \<notin> set (path_name p)"
  unfolding path_name_def using set_takeWhileD by fastforce

lemma stem_no_slash: "CHR ''/'' \<notin> set (stem p)"
  using path_name_no_slash [of p]
  by (auto simp: stem_def Let_def split: option.splits dest: in_set_takeD)

lemma path_name_append:
  assumes "CHR ''/'' \<notin> set ys"
  shows "path_name (xs @ ''/'' @ ys) = ys"
proof -
  have "takeWhile (\<lambda>c. c \<noteq> CHR ''/'') (rev ys @ CHR ''/'' # rev xs) =
        rev ys @ takeWhile (\<lambda>c. c \<noteq> CHR ''/'') (CHR ''/'' # rev xs)"
    by (rule takeWhile_append2) (use assms in auto)
  then show ?thesis by (simp add: path_name_def)
qed

lemma parent_append:
  "CHR ''/'' \<notin> set ys \<Longrightarrow> parent (xs @ ''/'' @ ys) = xs"
  using path_name_append [of ys xs] by (simp add: parent_def)

subsection \<open>The task\<close>

lemma convert_open_failed:
  "image_open sys w src = Inl ex \<Longrightarrow>
   convert sys w src config = \<lparr>raised = Some ex, trace = [], world = w\<rparr>"
  by (simp add: convert_def)

lemma convert_save_quality:
  "ev \<in> set (trace (convert sys w src config)) \<Longrightarrow> is_save ev \<Longrightarrow>
   save_quality ev = Some (IMAGE_QUALITY config)"
  by (auto simp: convert_defs
      split: prod.splits option.splits exc_class.splits sum.splits if_splits)

lemma convert_save_path:
  "ev \<in> set (trace (convert sys w src config)) \<Longrightarrow> is_save ev \<Longrightarrow>
   save_path ev = Some (dest_path_of sys src config)"
  by (auto simp: convert_defs
      split: prod.splits option.splits exc_class.splits sum.splits if_splits)

subsection \<open>The command line and the validation\<close>

lemma parse_loop_quality:
  "parse_loop ts st = Inr st' \<Longrightarrow> quality (snd (snd st)) = 80 \<Longrightarrow>
   quality (snd (snd st')) = 80"
proof (induction ts st arbitrary: st' rule: parse_loop.induct)
  case (1 st)
  then show ?case by simp
next
  case (2 t ts pos extras opts)
  then show ?case
    by (auto split: if_splits opt_kind.splits option.splits sum.splits list.splits
        simp: store_nb_workers_def take_flag_def)
qed

lemma parse_args_quality: "parse_args sys argv = Inr args \<Longrightarrow> quality args = 80"
  using parse_loop_quality [of argv "([], [], default_options sys)"]
  by (auto simp: parse_args_def default_options_def
      split: sum.splits prod.splits list.splits if_splits)

lemma configure_quality:
  "configure_argument_parser sys argv = Inr config \<Longrightarrow> IMAGE_QUALITY config = 80"
  using parse_args_quality [of sys argv]
  by (auto simp: configure_argument_parser_def Config_init_def split: sum.splits)

lemma starts_dot_with_dot: "starts ''.'' (with_dot e)"
  by (cases e) (simp_all add: with_dot_def)

lemma with_dot_idem: "with_dot (with_dot e) = with_dot e"
  using starts_dot_with_dot [of e] by (simp add: with_dot_def)

lemma check_config_types:
  "check_config sys w c = Inr c' \<Longrightarrow>
   c' = c\<lparr>SOURCE_FILE_TYPE := with_dot (SOURCE_FILE_TYPE c),
          DESTINATION_FILE_TYPE := with_dot (DESTINATION_FILE_TYPE c)\<rparr>"
  by (simp add: check_config_def Let_def split: if_splits)

lemma check_config_normal:
  "check_config sys w
     (c\<lparr>SOURCE_FILE_TYPE := with_dot (SOURCE_FILE_TYPE c),
        DESTINATION_FILE_TYPE := with_dot (DESTINATION_FILE_TYPE c)\<rparr>) = check_config sys w c"
  by (simp add: check_config_def Let_def with_dot_idem)

lemma check_config_dest_unsupported:
  "registered_extensions sys (with_dot (DESTINATION_FILE_TYPE config)) = None \<Longrightarrow>
   \<exists>m. check_config sys w config = Inl (SystemExit_str m)"
  by (simp add: check_config_def Let_def)

subsection \<open>The main program\<close>

lemma run_tasks_length:
  "run_tasks sys config w files = (fs, evs, w') \<Longrightarrow> length fs = length files"
  by (induction files arbitrary: w fs evs w') (auto simp: Let_def split: prod.splits)






lemma main_all_files:
  "configure_argument_parser sys argv = Inr c \<Longrightarrow> check_config sys w c = Inr c' \<Longrightarrow>
   all_files (main sys w argv) =
     glob sys w (absolute (cwd sys) (SOURCE_FOLDER c') @ ''/**/*'' @ SOURCE_FILE_TYPE c')
       (IS_RECURSIVE c')"
  by (simp add: main_def Let_def split: prod.splits)

lemma main_ran:
  assumes "configure_argument_parser sys argv = Inr c0"
    and "check_config sys w c0 = Inr c"
    and "0 < NB_WORKERS c"
  shows "exit_status (main sys w argv) = 0
       \<and> last (printed (main sys w argv)) = Write ''Done.''
       \<and> length (futures (main sys w argv)) = length (all_files (main sys w argv))"
  using assms
  by (auto simp: main_def Let_def split: prod.splits dest: run_tasks_length)


subsection \<open>Runs in the small world\<close>

lemma demo_configure:
  "configure_argument_parser demo_sys demo_argv =
     Inr ((demo_config ''/out'')\<lparr>SOURCE_FILE_TYPE := ''png'', DESTINATION_FILE_TYPE := ''jpg''\<rparr>)"
  by (simp add: parse_defs demo_defs)

lemma demo_check_config:
  "check_config demo_sys demo_world
     ((demo_config ''/out'')\<lparr>SOURCE_FILE_TYPE := ''png'', DESTINATION_FILE_TYPE := ''jpg''\<rparr>)
   = Inr (demo_config ''/out'')"
  by (simp add: check_config_def with_dot_def demo_defs path_defs Let_def)


section \<open>The claims\<close>

subsection \<open>C1: failures of a task and its boundary\<close>

text \<open>
  C1 says that \<^verbatim>\<open>convert\<close> never raises: every failure of the open or of a save
  becomes a warning or an error report of the task. The source file
  \<^verbatim>\<open>/in/bad.png\<close> cannot be opened: \<^verbatim>\<open>Image.open\<close> (line 84) stands outside the
  \<^verbatim>\<open>try\<close>, so the exception leaves \<^verbatim>\<open>convert\<close>, nothing is written and no error
  report is made.
\<close>

theorem convert_raises_on_unreadable_source:
  "raised (convert demo_sys demo_world ''/in/bad.png'' (demo_config ''/out''))
     = Some (Exc OSError ''cannot identify image file /in/bad.png'')
   \<and> trace (convert demo_sys demo_world ''/in/bad.png'' (demo_config ''/out'')) = []
   \<and> \<not> reports_failure ''/in/bad.png''
         (convert demo_sys demo_world ''/in/bad.png'' (demo_config ''/out''))"
  by (simp add: convert_def demo_defs reports_failure_def)

subsection \<open>C2: a save failure without the transparency token\<close>

text \<open>
  C2 says that a save failure whose message has no \<^verbatim>\<open>RGBA\<close> is never retried and
  becomes an error report, with exactly one save. The directory \<^verbatim>\<open>/ro\<close> is not
  writable: the first save raises an \<^verbatim>\<open>OSError\<close> without \<^verbatim>\<open>RGBA\<close> in its message,
  the handler of line 94 calls \<^verbatim>\<open>image.save\<close> again (line 98, after the \<^verbatim>\<open>if\<close>)
  with the same image and arguments, and the exception of this second call leaves
  \<^verbatim>\<open>convert\<close>; no error report is written.
\<close>

theorem convert_retries_plain_oserror:
  "\<not> py_in ''RGBA'' ''[Errno 13] Permission denied: /ro/a.jpg''
   \<and> convert demo_sys demo_world ''/in/a.png'' (demo_config ''/ro'') =
       \<lparr>raised = Some (Exc OSError ''[Errno 13] Permission denied: /ro/a.jpg''),
        trace = [Save ''RGB'' ''/ro/a.jpg'' (Some ''JPEG'') 80 True True,
                 Save ''RGB'' ''/ro/a.jpg'' (Some ''JPEG'') 80 True True],
        world = demo_world\<rparr>
   \<and> save_attempts (trace (convert demo_sys demo_world ''/in/a.png'' (demo_config ''/ro''))) = 2
   \<and> \<not> reports_failure ''/in/a.png''
         (convert demo_sys demo_world ''/in/a.png'' (demo_config ''/ro''))"
  by (simp add: convert_defs demo_defs path_defs reports_failure_def save_attempts_def)

subsection \<open>C3: the transparency fallback\<close>

text \<open>
  C3, as amended: if the first save raises an \<^verbatim>\<open>OSError\<close> whose message contains
  \<^verbatim>\<open>RGBA\<close>, the task writes the transparency warning, converts the image to
  \<^verbatim>\<open>RGB\<close> and, when the conversion returns, calls \<^verbatim>\<open>image.save\<close> exactly once more:
  on the converted image, with the same destination, format, quality, optimize and
  progressive arguments. The trace of the task is the warning of an existing
  destination (if any), the first save, the transparency warning and the second save,
  and nothing else: there is no third save.
\<close>

theorem convert_transparency_retry:
  assumes "image_open sys w src = Inr img"
    and "save_to_dest sys w img src config = (Some ex, w1)"
    and "cls ex = OSError"
    and "py_in ''RGBA'' (str ex)"
    and "image_convert sys img ''RGB'' = Inr img2"
  shows "trace (convert sys w src config) =
           exists_warned sys w src config @
           [saved sys img src config, Write (transparency_warning src ex),
            saved sys img2 src config]
       \<and> save_attempts (trace (convert sys w src config)) = 2"
  using assms by (simp add: convert_defs save_attempts_def split: prod.splits)

theorem convert_transparency_retry_witness:
  "image_open demo_sys demo_world ''/in/c.png'' = Inr ''RGBA''
   \<and> save_to_dest demo_sys demo_world ''RGBA'' ''/in/c.png'' (demo_config ''/out'')
       = (Some (Exc OSError ''cannot write mode RGBA as JPEG''), demo_world)
   \<and> py_in ''RGBA'' ''cannot write mode RGBA as JPEG''
   \<and> image_convert demo_sys ''RGBA'' ''RGB'' = Inr ''RGB''
   \<and> trace (convert demo_sys demo_world ''/in/c.png'' (demo_config ''/out'')) =
       [Save ''RGBA'' ''/out/c.jpg'' (Some ''JPEG'') 80 True True,
        Write (''Warning: file /in/c.png has a transparency layer, message: ''
               @ ''cannot write mode RGBA as JPEG''),
        Save ''RGB'' ''/out/c.jpg'' (Some ''JPEG'') 80 True True]
   \<and> save_attempts (trace (convert demo_sys demo_world ''/in/c.png'' (demo_config ''/out''))) = 2"
proof -
  have h1: "image_open demo_sys demo_world ''/in/c.png'' = Inr ''RGBA''"
    by (simp add: demo_defs)
  have h2: "save_to_dest demo_sys demo_world ''RGBA'' ''/in/c.png'' (demo_config ''/out'')
       = (Some (Exc OSError ''cannot write mode RGBA as JPEG''), demo_world)"
    by (simp add: demo_defs path_defs)
  have h3: "cls (Exc OSError ''cannot write mode RGBA as JPEG'') = OSError"
    by simp
  have h4: "py_in ''RGBA'' (str (Exc OSError ''cannot write mode RGBA as JPEG''))"
    by simp
  have h5: "image_convert demo_sys ''RGBA'' ''RGB'' = Inr ''RGB''"
    by (simp add: demo_defs)
  have dest: "dest_path_of demo_sys ''/in/c.png'' (demo_config ''/out'') = ''/out/c.jpg''"
    by (simp add: demo_defs path_defs)
  have fmt: "registered_extensions demo_sys (suffix ''/out/c.jpg'') = Some ''JPEG''"
    by (simp add: demo_defs path_defs)
  have cfg: "IMAGE_QUALITY (demo_config ''/out'') = 80" "OPTIMIZE (demo_config ''/out'')"
    "PROGRESSIVE (demo_config ''/out'')"
    by (simp_all add: demo_defs)
  have ex: "\<not> exists demo_sys demo_world ''/out/c.jpg''"
    by (simp add: demo_defs)
  from convert_transparency_retry [OF h1 h2 h3 h4 h5] h1 h2 h4 h5 show ?thesis
    by (simp add: dest fmt cfg ex transparency_warning_def save_attempts_def)
qed

text \<open>
  C3 as stated fails in two ways. With the destination \<^verbatim>\<open>/full\<close> the first save of
  \<^verbatim>\<open>/in/c.png\<close> fails on \<^verbatim>\<open>RGBA\<close> and the retry fails too: the second exception
  leaves \<^verbatim>\<open>convert\<close> and no error report is written. With the destination type
  \<^verbatim>\<open>.pdf\<close> the save fails with a \<^verbatim>\<open>ValueError\<close> whose message contains
  \<^verbatim>\<open>RGBA\<close>: the clause of line 94 does not take it, there is no transparency warning
  and no second save.
\<close>

theorem convert_transparency_counterexample:
  "convert demo_sys demo_world ''/in/c.png'' (demo_config ''/full'') =
     \<lparr>raised = Some (Exc OSError ''[Errno 28] No space left on device''),
      trace = [Save ''RGBA'' ''/full/c.jpg'' (Some ''JPEG'') 80 True True,
               Write (''Warning: file /in/c.png has a transparency layer, message: ''
                      @ ''cannot write mode RGBA as JPEG''),
               Save ''RGB'' ''/full/c.jpg'' (Some ''JPEG'') 80 True True],
      world = demo_world\<rparr>
   \<and> \<not> reports_failure ''/in/c.png''
         (convert demo_sys demo_world ''/in/c.png'' (demo_config ''/full''))
   \<and> py_in ''RGBA'' ''cannot save mode RGBA''
   \<and> convert demo_sys demo_world ''/in/c.png''
        ((demo_config ''/out'')\<lparr>DESTINATION_FILE_TYPE := ''.pdf''\<rparr>) =
     \<lparr>raised = None,
      trace = [Save ''RGBA'' ''/out/c.pdf'' (Some ''PDF'') 80 True True,
               Write ''Error: file: /in/c.png, message: cannot save mode RGBA''],
      world = demo_world\<rparr>"
  by (simp add: convert_defs demo_defs path_defs line_defs reports_failure_def)

subsection \<open>C4: a destination that already exists\<close>




subsection \<open>C5: the destination path\<close>

text \<open>
  C5: the destination path is the configured destination directory (made absolute),
  a separator, the stem of the source file and the configured destination extension.
  For an extension without a separator the file lies directly in the destination
  directory and its name is the stem followed by the extension. The path does not
  depend on the directory of the source file (the tree of the sources is not
  mirrored), it depends on the configuration through the destination directory and
  extension only, and for an absolute destination directory it is the same in every
  environment. Every save of the task goes to this path.
\<close>

theorem dest_path_flat:
  assumes "CHR ''/'' \<notin> set (DESTINATION_FILE_TYPE config)"
  shows "dest_path_of sys src config =
           absolute (cwd sys) (DESTINATION_FOLDER config) @ ''/'' @ stem src
             @ DESTINATION_FILE_TYPE config
       \<and> parent (dest_path_of sys src config) = absolute (cwd sys) (DESTINATION_FOLDER config)
       \<and> path_name (dest_path_of sys src config) = stem src @ DESTINATION_FILE_TYPE config
       \<and> (path_name src' = path_name src \<longrightarrow>
            dest_path_of sys src' config = dest_path_of sys src config)
       \<and> (DESTINATION_FOLDER config' = DESTINATION_FOLDER config
            \<and> DESTINATION_FILE_TYPE config' = DESTINATION_FILE_TYPE config \<longrightarrow>
            dest_path_of sys src config' = dest_path_of sys src config)
       \<and> (starts ''/'' (DESTINATION_FOLDER config) \<longrightarrow>
            dest_path_of sys' src config = dest_path_of sys src config)
       \<and> (\<forall>ev \<in> set (trace (convert sys w src config)).
            is_save ev \<longrightarrow> save_path ev = Some (dest_path_of sys src config))"
proof -
  have flat: "CHR ''/'' \<notin> set (stem src @ DESTINATION_FILE_TYPE config)"
    using assms stem_no_slash [of src] by simp
  have c1: "dest_path_of sys src config =
      absolute (cwd sys) (DESTINATION_FOLDER config) @ ''/'' @ stem src
        @ DESTINATION_FILE_TYPE config"
    by (simp add: dest_path_of_def)
  have c2: "parent (dest_path_of sys src config) = absolute (cwd sys) (DESTINATION_FOLDER config)"
    unfolding dest_path_of_def using parent_append [OF flat] by simp
  have c3: "path_name (dest_path_of sys src config) = stem src @ DESTINATION_FILE_TYPE config"
    unfolding dest_path_of_def using path_name_append [OF flat] by simp
  have c4: "path_name src' = path_name src \<longrightarrow>
      dest_path_of sys src' config = dest_path_of sys src config"
    by (simp add: dest_path_of_def stem_def)
  have c5: "DESTINATION_FOLDER config' = DESTINATION_FOLDER config
      \<and> DESTINATION_FILE_TYPE config' = DESTINATION_FILE_TYPE config \<longrightarrow>
      dest_path_of sys src config' = dest_path_of sys src config"
    by (simp add: dest_path_of_def)
  have c6: "starts ''/'' (DESTINATION_FOLDER config) \<longrightarrow>
      dest_path_of sys' src config = dest_path_of sys src config"
    by (simp add: dest_path_of_def absolute_def)
  have c7: "\<forall>ev \<in> set (trace (convert sys w src config)).
      is_save ev \<longrightarrow> save_path ev = Some (dest_path_of sys src config)"
    by (intro ballI impI) (rule convert_save_path)
  from c1 c2 c3 c4 c5 c6 c7 show ?thesis
    by (intro conjI)
qed

theorem dest_path_flat_witness:
  "CHR ''/'' \<notin> set (DESTINATION_FILE_TYPE (demo_config ''/out''))
   \<and> dest_path_of demo_sys ''/in/sub/a.png'' (demo_config ''/out'') = ''/out/a.jpg''
   \<and> parent (dest_path_of demo_sys ''/in/sub/a.png'' (demo_config ''/out'')) = ''/out''
   \<and> path_name ''/in/a.png'' = path_name ''/in/sub/a.png''
   \<and> dest_path_of demo_sys ''/in/a.png'' (demo_config ''/out'')
       = dest_path_of demo_sys ''/in/sub/a.png'' (demo_config ''/out'')
   \<and> starts ''/'' (DESTINATION_FOLDER (demo_config ''/out''))
   \<and> dest_path_of (demo_sys\<lparr>cwd := ''/tmp''\<rparr>) ''/in/sub/a.png'' (demo_config ''/out'')
       = dest_path_of demo_sys ''/in/sub/a.png'' (demo_config ''/out'')
   \<and> Save ''RGB'' ''/out/a.jpg'' (Some ''JPEG'') 80 True True
       \<in> set (trace (convert demo_sys demo_world ''/in/sub/a.png'' (demo_config ''/out'')))
   \<and> save_path (Save ''RGB'' ''/out/a.jpg'' (Some ''JPEG'') 80 True True)
       = Some (dest_path_of demo_sys ''/in/sub/a.png'' (demo_config ''/out''))"
proof -
  have h: "CHR ''/'' \<notin> set (DESTINATION_FILE_TYPE (demo_config ''/out''))"
    by (simp add: demo_defs)
  have n: "path_name ''/in/a.png'' = path_name ''/in/sub/a.png''"
    by (simp add: path_defs)
  have a: "starts ''/'' (DESTINATION_FOLDER (demo_config ''/out''))"
    by (simp add: demo_defs)
  have d: "dest_path_of demo_sys ''/in/sub/a.png'' (demo_config ''/out'') = ''/out/a.jpg''"
    by (simp add: demo_defs path_defs)
  have o: "absolute (cwd demo_sys) (DESTINATION_FOLDER (demo_config ''/out'')) = ''/out''"
    by (simp add: demo_defs path_defs)
  have t: "trace (convert demo_sys demo_world ''/in/sub/a.png'' (demo_config ''/out''))
             = [Save ''RGB'' ''/out/a.jpg'' (Some ''JPEG'') 80 True True]"
    by (simp add: convert_defs demo_defs path_defs)
  note inst = dest_path_flat [OF h, of demo_sys "''/in/sub/a.png''" "''/in/a.png''"
      "demo_config ''/out''" "demo_sys\<lparr>cwd := ''/tmp''\<rparr>" demo_world]
  from inst have p: "parent (dest_path_of demo_sys ''/in/sub/a.png'' (demo_config ''/out''))
      = absolute (cwd demo_sys) (DESTINATION_FOLDER (demo_config ''/out''))"
    by (elim conjE)
  from inst n have s: "dest_path_of demo_sys ''/in/a.png'' (demo_config ''/out'')
       = dest_path_of demo_sys ''/in/sub/a.png'' (demo_config ''/out'')"
    by (elim conjE) simp
  from inst a have e: "dest_path_of (demo_sys\<lparr>cwd := ''/tmp''\<rparr>) ''/in/sub/a.png''
       (demo_config ''/out'') = dest_path_of demo_sys ''/in/sub/a.png'' (demo_config ''/out'')"
    by (elim conjE) simp
  from inst have q: "\<forall>ev \<in> set (trace (convert demo_sys demo_world ''/in/sub/a.png''
       (demo_config ''/out''))). is_save ev \<longrightarrow>
       save_path ev = Some (dest_path_of demo_sys ''/in/sub/a.png'' (demo_config ''/out''))"
    by (elim conjE)
  have m: "Save ''RGB'' ''/out/a.jpg'' (Some ''JPEG'') 80 True True
       \<in> set (trace (convert demo_sys demo_world ''/in/sub/a.png'' (demo_config ''/out'')))"
    by (simp add: t)
  from q m have v: "save_path (Save ''RGB'' ''/out/a.jpg'' (Some ''JPEG'') 80 True True)
       = Some (dest_path_of demo_sys ''/in/sub/a.png'' (demo_config ''/out''))"
    by (simp add: t)
  from p o have p2: "parent (dest_path_of demo_sys ''/in/sub/a.png'' (demo_config ''/out''))
      = ''/out''"
    by (simp only:)
  from h d p2 n s a e m v show ?thesis
    by (intro conjI)
qed

subsection \<open>C6: a destination extension the codec does not know\<close>

text \<open>
  C6: when the destination extension of the command line, with its leading dot, is
  not an extension registered with the codec, \<^verbatim>\<open>check_config\<close> raises
  \<^verbatim>\<open>SystemExit\<close> with a message, the program exits with status 1, no file is
  discovered for conversion, no task is submitted and no save takes place.
\<close>

theorem unsupported_dest_type_exits:
  assumes "configure_argument_parser sys argv = Inr config"
    and "registered_extensions sys (with_dot (DESTINATION_FILE_TYPE config)) = None"
  shows "(\<exists>m. check_config sys w config = Inl (SystemExit_str m))
       \<and> exit_status (main sys w argv) = 1
       \<and> all_files (main sys w argv) = []
       \<and> futures (main sys w argv) = []
       \<and> save_attempts (printed (main sys w argv)) = 0
       \<and> final (main sys w argv) = w"
proof -
  obtain m where m: "check_config sys w config = Inl (SystemExit_str m)"
    using check_config_dest_unsupported [OF assms(2), of w] by auto
  with assms(1) have "main sys w argv = exit_run (SystemExit_str m) w"
    by (simp add: main_def)
  with m show ?thesis
    by (simp add: exit_run_def save_attempts_def)
qed

theorem unsupported_dest_type_exits_witness:
  "configure_argument_parser demo_sys [''/in'', ''/out'', ''png'', ''.xyz'']
     = Inr ((demo_config ''/out'')\<lparr>SOURCE_FILE_TYPE := ''png'', DESTINATION_FILE_TYPE := ''.xyz''\<rparr>)
   \<and> registered_extensions demo_sys (with_dot ''.xyz'') = None
   \<and> check_config demo_sys demo_world
        ((demo_config ''/out'')\<lparr>SOURCE_FILE_TYPE := ''png'', DESTINATION_FILE_TYPE := ''.xyz''\<rparr>)
       = Inl (SystemExit_str ''Error: Desired conversion format is not supported'')
   \<and> exit_status (main demo_sys demo_world [''/in'', ''/out'', ''png'', ''.xyz'']) = 1
   \<and> futures (main demo_sys demo_world [''/in'', ''/out'', ''png'', ''.xyz'']) = []
   \<and> save_attempts (printed (main demo_sys demo_world [''/in'', ''/out'', ''png'', ''.xyz''])) = 0"
proof -
  have h1: "configure_argument_parser demo_sys [''/in'', ''/out'', ''png'', ''.xyz'']
     = Inr ((demo_config ''/out'')\<lparr>SOURCE_FILE_TYPE := ''png'', DESTINATION_FILE_TYPE := ''.xyz''\<rparr>)"
    by (simp add: parse_defs demo_defs)
  have h2: "registered_extensions demo_sys (with_dot (DESTINATION_FILE_TYPE
      ((demo_config ''/out'')\<lparr>SOURCE_FILE_TYPE := ''png'', DESTINATION_FILE_TYPE := ''.xyz''\<rparr>)))
      = None"
    by (simp add: demo_defs with_dot_def)
  have c: "check_config demo_sys demo_world
        ((demo_config ''/out'')\<lparr>SOURCE_FILE_TYPE := ''png'', DESTINATION_FILE_TYPE := ''.xyz''\<rparr>)
       = Inl (SystemExit_str ''Error: Desired conversion format is not supported'')"
    by (simp add: check_config_def with_dot_def demo_defs path_defs Let_def)
  from unsupported_dest_type_exits [OF h1 h2, of demo_world] h1 h2 c show ?thesis
    by simp
qed

subsection \<open>C7: the leading dot of an extension\<close>

text \<open>
  C7: giving an extension its leading dot is idempotent: the dot is put in front
  exactly when the extension does not start with one (\<^verbatim>\<open>gif\<close> becomes \<^verbatim>\<open>.gif\<close>),
  and an extension that starts with a dot is left as it is. A configuration that
  \<^verbatim>\<open>check_config\<close> accepts comes back with both extensions in this form, and
  checking it again changes nothing. The discovery of line 109 runs afterwards, on the
  source extension with its dot.
\<close>

theorem with_dot_idempotent:
  "with_dot (with_dot e) = with_dot e
   \<and> with_dot e = (if starts ''.'' e then e else ''.'' @ e)
   \<and> with_dot ''gif'' = ''.gif''
   \<and> (check_config sys w c = Inr c' \<longrightarrow>
        SOURCE_FILE_TYPE c' = with_dot (SOURCE_FILE_TYPE c)
        \<and> DESTINATION_FILE_TYPE c' = with_dot (DESTINATION_FILE_TYPE c)
        \<and> check_config sys w c' = Inr c')
   \<and> (configure_argument_parser sys argv = Inr c \<and> check_config sys w c = Inr c' \<longrightarrow>
        all_files (main sys w argv) =
          glob sys w (absolute (cwd sys) (SOURCE_FOLDER c) @ ''/**/*''
                        @ with_dot (SOURCE_FILE_TYPE c)) (IS_RECURSIVE c))"
proof -
  have a: "with_dot ''gif'' = ''.gif''"
    by (simp add: with_dot_def)
  have b: "check_config sys w c' = Inr c'" if h: "check_config sys w c = Inr c'"
    using check_config_types [OF h] check_config_normal [of sys w c] h by simp
  have d: "all_files (main sys w argv) =
          glob sys w (absolute (cwd sys) (SOURCE_FOLDER c) @ ''/**/*''
                        @ with_dot (SOURCE_FILE_TYPE c)) (IS_RECURSIVE c)"
    if h1: "configure_argument_parser sys argv = Inr c" and h2: "check_config sys w c = Inr c'"
    using main_all_files [OF h1 h2] check_config_types [OF h2] by simp
  show ?thesis
    using a b d check_config_types [of sys w c c'] with_dot_idem [of e]
    by (auto simp: with_dot_def)
qed

theorem with_dot_idempotent_witness:
  "with_dot (with_dot ''gif'') = ''.gif''
   \<and> check_config demo_sys demo_world
        ((demo_config ''/out'')\<lparr>SOURCE_FILE_TYPE := ''png'', DESTINATION_FILE_TYPE := ''jpg''\<rparr>)
       = Inr (demo_config ''/out'')
   \<and> SOURCE_FILE_TYPE (demo_config ''/out'') = ''.png''
   \<and> DESTINATION_FILE_TYPE (demo_config ''/out'') = ''.jpg''
   \<and> check_config demo_sys demo_world (demo_config ''/out'') = Inr (demo_config ''/out'')
   \<and> configure_argument_parser demo_sys demo_argv
       = Inr ((demo_config ''/out'')\<lparr>SOURCE_FILE_TYPE := ''png'', DESTINATION_FILE_TYPE := ''jpg''\<rparr>)
   \<and> all_files (main demo_sys demo_world demo_argv)
       = glob demo_sys demo_world ''/in/**/*.png'' True"
proof -
  have s: "SOURCE_FILE_TYPE (demo_config ''/out'') = ''.png''"
    "DESTINATION_FILE_TYPE (demo_config ''/out'') = ''.jpg''"
    by (simp_all add: demo_defs)
  from with_dot_idempotent [of "''gif''" demo_sys demo_world
      "(demo_config ''/out'')\<lparr>SOURCE_FILE_TYPE := ''png'', DESTINATION_FILE_TYPE := ''jpg''\<rparr>"
      "demo_config ''/out''" demo_argv]
    demo_configure demo_check_config s
  show ?thesis
    by (simp add: with_dot_def absolute_def demo_config_def demo_sys_def)
qed

subsection \<open>C8: the quality option\<close>

text \<open>
  C8 says that \<^verbatim>\<open>--quality\<close> takes an integer value. Line 70 declares it with
  \<^verbatim>\<open>action='store_const'\<close>, so it takes none: \<^verbatim>\<open>--quality 50\<close> after the four
  positional arguments is refused with status 2, and so is \<^verbatim>\<open>--quality=50\<close>; before
  the last positional argument the \<^verbatim>\<open>50\<close> is read as the source extension, and the
  quality of the configuration is 80 all the same.
\<close>

theorem quality_option_takes_no_value:
  "configure_argument_parser demo_sys (demo_argv @ [''--quality'', ''50''])
     = Inl (SystemExit_int 2)
   \<and> configure_argument_parser demo_sys (demo_argv @ [''--quality=50''])
     = Inl (SystemExit_int 2)
   \<and> configure_argument_parser demo_sys [''/in'', ''/out'', ''--quality'', ''50'', ''jpg'']
     = Inr ((demo_config ''/out'')\<lparr>SOURCE_FILE_TYPE := ''50'', DESTINATION_FILE_TYPE := ''jpg''\<rparr>)
   \<and> IMAGE_QUALITY
        ((demo_config ''/out'')\<lparr>SOURCE_FILE_TYPE := ''50'', DESTINATION_FILE_TYPE := ''jpg''\<rparr>)
       = 80"
  by (simp add: parse_defs demo_defs)

subsection \<open>C10: what the main program does with a task that raised\<close>



end
